theory Spec2Isabelle
  imports Complex_Main "HOL-Library.Sublist" "HOL-Library.Multiset"
    "HOL-Library.Char_ord" "HOL-Library.List_Lexorder"
begin

section \<open>Domain normalizer: \<open>extractBaseDomain\<close> of alternate-dns-analyzer.tsx\<close>

text \<open>
  JavaScript strings are modelled as \<open>string\<close>. The three array and string methods the
  function calls are written out: \<open>String.prototype.split(".")\<close>, \<open>Array.prototype.slice(-2)\<close>
  and \<open>Array.prototype.join(".")\<close>, together with \<open>String.prototype.endsWith\<close>.
\<close>

text \<open>\<open>s.split(".")\<close>: the pieces between the dots; the empty string gives one empty piece.\<close>

fun splitDot :: "string \<Rightarrow> string list" where
  "splitDot [] = [[]]"
| "splitDot (c # cs) =
     (if c = CHR ''.'' then [] # splitDot cs
      else (case splitDot cs of
              [] \<Rightarrow> [[c]]
            | p # ps \<Rightarrow> (c # p) # ps))"

text \<open>\<open>parts.join(".")\<close>.\<close>

fun joinDot :: "string list \<Rightarrow> string" where
  "joinDot [] = []"
| "joinDot [p] = p"
| "joinDot (p # q # ps) = p @ CHR ''.'' # joinDot (q # ps)"

text \<open>\<open>parts.slice(-2)\<close>: the last two elements, or the whole array when it is shorter.\<close>

definition sliceLast2 :: "'a list \<Rightarrow> 'a list" where
  "sliceLast2 parts = drop (length parts - 2) parts"

text \<open>\<open>s.endsWith(t)\<close>.\<close>

definition endsWith :: "string \<Rightarrow> string \<Rightarrow> bool" where
  "endsWith s t = (length t \<le> length s \<and> drop (length s - length t) s = t)"

text \<open>
  \<^verbatim>\<open>
  const extractBaseDomain = (queryValue) => {
    if (!queryValue) return null
    if (queryValue.endsWith(".in-addr.arpa") || queryValue.endsWith(".ip6.arpa")) {
      return queryValue.split(".").slice(-2).join(".")
    }
    const parts = queryValue.split(".")
    if (parts.length >= 2) {
      return parts.slice(-2).join(".")
    }
    return queryValue
  }
  \<close>
  The only falsy string is the empty one; \<open>null\<close> is \<open>None\<close>.
\<close>

definition extractBaseDomain :: "string \<Rightarrow> string option" where
  "extractBaseDomain queryValue =
     (if queryValue = [] then None
      else if endsWith queryValue ''.in-addr.arpa'' \<or> endsWith queryValue ''.ip6.arpa''
      then Some (joinDot (sliceLast2 (splitDot queryValue)))
      else (let parts = splitDot queryValue in
            if 2 \<le> length parts then Some (joinDot (sliceLast2 parts))
            else Some queryValue))"

section \<open>JavaScript values, objects and arrays used by \<open>processData\<close>\<close>

text \<open>
  A cell of a parsed CSV row. The reader runs with \<open>dynamicTyping\<close>, so a cell is a string,
  a number, a boolean, \<open>null\<close>, a date object, or \<open>undefined\<close> when the column is absent.
  A number carries its decimal rendering (the result of \<open>String(n)\<close>), an object its string
  conversion.
\<close>

datatype jsval = JUndefined | JNull | JBool bool | JNum string | JStr string | JObject string

text \<open>Truthiness, as \<open>&&\<close> tests it.\<close>

fun truthy :: "jsval \<Rightarrow> bool" where
  "truthy JUndefined = False"
| "truthy JNull = False"
| "truthy (JBool b) = b"
| "truthy (JNum n) = (n \<noteq> ''0'' \<and> n \<noteq> ''NaN'')"
| "truthy (JStr s) = (s \<noteq> [])"
| "truthy (JObject s) = True"

text \<open>\<open>typeof v === "string"\<close>.\<close>

fun isString :: "jsval \<Rightarrow> bool" where
  "isString (JStr s) = True"
| "isString v = False"

text \<open>The property key a value is converted to when it indexes an object.\<close>

fun propKey :: "jsval \<Rightarrow> string" where
  "propKey JUndefined = ''undefined''"
| "propKey JNull = ''null''"
| "propKey (JBool b) = (if b then ''true'' else ''false'')"
| "propKey (JNum n) = n"
| "propKey (JStr s) = s"
| "propKey (JObject s) = s"

text \<open>
  A plain object with string keys is the list of its properties in creation order.
  \<open>Object.entries\<close> and \<open>Object.keys\<close> enumerate the array-index keys first (canonical
  decimal numerals below \<open>2^32 - 1\<close>), in ascending numeric order, and then the other keys
  in creation order.
\<close>

type_synonym 'v object = "(string \<times> 'v) list"

definition isDigit :: "char \<Rightarrow> bool" where
  "isDigit c = (CHR ''0'' \<le> c \<and> c \<le> CHR ''9'')"

definition decimalValue :: "string \<Rightarrow> int" where
  "decimalValue s = foldl (\<lambda>n c. 10 * n + (of_char c - 48)) 0 s"

definition isArrayIndex :: "string \<Rightarrow> bool" where
  "isArrayIndex k =
     (k \<noteq> [] \<and> list_all isDigit k \<and> (k = ''0'' \<or> hd k \<noteq> CHR ''0'')
      \<and> decimalValue k < 4294967295)"

definition objectEntries :: "'v object \<Rightarrow> (string \<times> 'v) list" where
  "objectEntries obj =
     sort_key (\<lambda>kv. decimalValue (fst kv)) (filter (\<lambda>kv. isArrayIndex (fst kv)) obj)
     @ filter (\<lambda>kv. \<not> isArrayIndex (fst kv)) obj"

definition objectKeys :: "'v object \<Rightarrow> string list" where
  "objectKeys obj = map fst (objectEntries obj)"

text \<open>
  \<open>_.groupBy(collection, iteratee)\<close> of lodash: for each element in order, its key is
  computed; the element is pushed onto the array stored under the key, or the key is created
  with a one-element array.
\<close>

fun groupAssign :: "string \<Rightarrow> 'a \<Rightarrow> 'a list object \<Rightarrow> 'a list object" where
  "groupAssign key v [] = [(key, [v])]"
| "groupAssign key v ((k, vs) # obj) =
     (if k = key then (k, vs @ [v]) # obj else (k, vs) # groupAssign key v obj)"

definition groupBy :: "'a list \<Rightarrow> ('a \<Rightarrow> string) \<Rightarrow> 'a list object" where
  "groupBy collection iteratee =
     foldl (\<lambda>result v. groupAssign (iteratee v) v result) [] collection"

text \<open>\<open>_.countBy(collection, iteratee)\<close>: the same walk, incrementing a counter per key.\<close>

fun countAssign :: "string \<Rightarrow> nat object \<Rightarrow> nat object" where
  "countAssign key [] = [(key, 1)]"
| "countAssign key ((k, n) # obj) =
     (if k = key then (k, n + 1) # obj else (k, n) # countAssign key obj)"

definition countBy :: "'a list \<Rightarrow> ('a \<Rightarrow> string) \<Rightarrow> nat object" where
  "countBy collection iteratee =
     foldl (\<lambda>result v. countAssign (iteratee v) result) [] collection"

text \<open>
  \<open>xs.sort((a, b) => b.f - a.f)\<close> for a count field \<open>f\<close>: \<open>Array.prototype.sort\<close> is stable,
  so the result is the stable arrangement of \<open>xs\<close> by descending \<open>f\<close>.
\<close>

definition sortByDesc :: "('a \<Rightarrow> nat) \<Rightarrow> 'a list \<Rightarrow> 'a list" where
  "sortByDesc f xs = sort_key (\<lambda>x. - int (f x)) xs"

section \<open>The aggregation: \<open>processData\<close> of alternate-dns-analyzer.tsx\<close>

text \<open>The three columns of a row that \<open>processData\<close> reads.\<close>

record row =
  queryValue :: jsval
  clientIP :: jsval
  queryType :: jsval

record enrichedRow = row +
  baseDomain :: "string option"

text \<open>
  \<^verbatim>\<open>
  const validData = data.filter(
    (row) =>
      row["Query Value"] && row["Client IP"] &&
      typeof row["Query Value"] === "string" && typeof row["Client IP"] === "string")
  \<close>
\<close>

definition validRow :: "row \<Rightarrow> bool" where
  "validRow r =
     (truthy (queryValue r) \<and> truthy (clientIP r)
      \<and> isString (queryValue r) \<and> isString (clientIP r))"

text \<open>
  \<open>{...row, baseDomain: extractBaseDomain(row["Query Value"])}\<close>. After the filter the
  query value is a string; a falsy value of another type gives \<open>null\<close> as well.
\<close>

definition enrich :: "row \<Rightarrow> enrichedRow" where
  "enrich r =
     \<lparr>queryValue = queryValue r, clientIP = clientIP r, queryType = queryType r,
      baseDomain = (case queryValue r of JStr s \<Rightarrow> extractBaseDomain s | _ \<Rightarrow> None)\<rparr>"

text \<open>The iteratees \<open>"Client IP"\<close>, \<open>"baseDomain"\<close> and \<open>"Query Type"\<close> as key functions.\<close>

definition ipKey :: "enrichedRow \<Rightarrow> string" where
  "ipKey e = propKey (clientIP e)"

definition domainKey :: "enrichedRow \<Rightarrow> string" where
  "domainKey e = (case baseDomain e of None \<Rightarrow> ''null'' | Some d \<Rightarrow> d)"

definition typeKey :: "enrichedRow \<Rightarrow> string" where
  "typeKey e = propKey (queryType e)"

text \<open>The entries \<open>{domain, count}\<close> and \<open>{ip, count}\<close> are pairs of the key and the count.\<close>

record ipDomainCount =
  ic_ip :: string
  ic_uniqueDomains :: nat
  ic_totalQueries :: nat
  ic_domains :: "(string \<times> nat) list"

record domainIPCount =
  dc_domain :: string
  dc_uniqueIPs :: nat
  dc_totalQueries :: nat
  dc_ips :: "(string \<times> nat) list"

record summary =
  totalRecords :: nat
  uniqueDomains :: nat
  uniqueIPs :: nat
  queryTypes :: "(string \<times> nat) list"

record analysis =
  summary :: summary
  topDomains :: "(string \<times> nat) list"
  topIPs :: "(string \<times> nat) list"
  ipDomainCounts :: "ipDomainCount list"
  domainIPCounts :: "domainIPCount list"

text \<open>The body of the \<open>map\<close> over \<open>Object.entries(ipToDomains)\<close>.\<close>

definition ipDomainCountOf :: "string \<times> enrichedRow list \<Rightarrow> ipDomainCount" where
  "ipDomainCountOf entry =
     (let ip = fst entry; rows = snd entry;
          domainCounts = countBy rows domainKey;
          uniqueDomains = length (objectKeys domainCounts);
          totalQueries = length rows
      in \<lparr>ic_ip = ip, ic_uniqueDomains = uniqueDomains, ic_totalQueries = totalQueries,
          ic_domains = sortByDesc snd (objectEntries domainCounts)\<rparr>)"

text \<open>The body of the \<open>map\<close> over \<open>Object.entries(domainToIPs)\<close>.\<close>

definition domainIPCountOf :: "string \<times> enrichedRow list \<Rightarrow> domainIPCount" where
  "domainIPCountOf entry =
     (let domain = fst entry; rows = snd entry;
          ipCounts = countBy rows ipKey;
          uniqueIPs = length (objectKeys ipCounts);
          totalQueries = length rows
      in \<lparr>dc_domain = domain, dc_uniqueIPs = uniqueIPs, dc_totalQueries = totalQueries,
          dc_ips = sortByDesc snd (objectEntries ipCounts)\<rparr>)"

text \<open>
  \<open>queryTypeData\<close>: the key \<open>"null"\<close> is filtered out (a key is never \<open>null\<close> itself), and
  the empty key is shown as \<open>"Unknown"\<close>.
\<close>

definition queryTypeData :: "enrichedRow list \<Rightarrow> (string \<times> nat) list" where
  "queryTypeData enrichedData =
     map (\<lambda>tc. (if fst tc = [] then ''Unknown'' else fst tc, snd tc))
       (filter (\<lambda>tc. fst tc \<noteq> ''null'') (objectEntries (countBy enrichedData typeKey)))"

definition processData :: "row list \<Rightarrow> analysis" where
  "processData data =
     (let validData = filter validRow data;
          enrichedData = map enrich validData;
          ipToDomains = groupBy enrichedData ipKey;
          ipDomainCounts = map ipDomainCountOf (objectEntries ipToDomains);
          domainToIPs = groupBy enrichedData domainKey;
          domainIPCounts = map domainIPCountOf (objectEntries domainToIPs);
          domainCounts = countBy enrichedData domainKey;
          topDomains = sortByDesc snd (objectEntries domainCounts);
          ipCounts = countBy enrichedData ipKey;
          topIPs = sortByDesc snd (objectEntries ipCounts)
      in \<lparr>summary =
            \<lparr>totalRecords = length enrichedData,
             uniqueDomains = length (objectKeys domainCounts),
             uniqueIPs = length (objectKeys ipCounts),
             queryTypes = queryTypeData enrichedData\<rparr>,
          topDomains = topDomains,
          topIPs = topIPs,
          ipDomainCounts = sortByDesc ic_totalQueries ipDomainCounts,
          domainIPCounts = sortByDesc dc_totalQueries domainIPCounts\<rparr>)"

subsection \<open>A run of \<open>processData\<close>, with the sort left to the implementation\<close>

text \<open>
  \<open>processData\<close> reads nothing but its argument: it uses no component state, no clock and no
  random source, and every object and array it fills is created inside the call. What a run
  leaves to the JavaScript implementation is the algorithm of \<open>Array.prototype.sort\<close>. For
  the comparator \<open>(a, b) => b.f - a.f\<close> the language guarantees that the result is a
  permutation of the array, that it is ordered by the comparator, and that elements the
  comparator ranks equal keep their relative order. \<open>sortResult f xs ys\<close> says that \<open>ys\<close>
  is a result the language allows for sorting \<open>xs\<close>.
\<close>

definition sortResult :: "('a \<Rightarrow> nat) \<Rightarrow> 'a list \<Rightarrow> 'a list \<Rightarrow> bool" where
  "sortResult f xs ys =
     (mset ys = mset xs
      \<and> sorted_wrt (\<lambda>a b. f b \<le> f a) ys
      \<and> list_all (\<lambda>c. filter (\<lambda>x. f x = c) ys = filter (\<lambda>x. f x = c) xs) (map f xs))"

text \<open>
  The entry built for one client IP in a run: the fields as in \<open>ipDomainCountOf\<close>, with
  \<open>domains\<close> any allowed result of the sort.
\<close>

definition ipDomainCountRun :: "string \<times> enrichedRow list \<Rightarrow> ipDomainCount \<Rightarrow> bool" where
  "ipDomainCountRun entry e =
     (let ip = fst entry; rows = snd entry;
          domainCounts = countBy rows domainKey;
          uniqueDomains = length (objectKeys domainCounts);
          totalQueries = length rows
      in ic_ip e = ip \<and> ic_uniqueDomains e = uniqueDomains \<and> ic_totalQueries e = totalQueries
         \<and> sortResult snd (objectEntries domainCounts) (ic_domains e))"

text \<open>The entry built for one base domain in a run.\<close>

definition domainIPCountRun :: "string \<times> enrichedRow list \<Rightarrow> domainIPCount \<Rightarrow> bool" where
  "domainIPCountRun entry e =
     (let domain = fst entry; rows = snd entry;
          ipCounts = countBy rows ipKey;
          uniqueIPs = length (objectKeys ipCounts);
          totalQueries = length rows
      in dc_domain e = domain \<and> dc_uniqueIPs e = uniqueIPs \<and> dc_totalQueries e = totalQueries
         \<and> sortResult snd (objectEntries ipCounts) (dc_ips e))"

text \<open>
  \<open>processDataRun data result\<close>: \<open>result\<close> is what some run of \<open>processData\<close> returns on
  \<open>data\<close>. The steps are those of \<open>processData\<close>; \<open>ipEntries\<close> and \<open>domainEntries\<close> are
  the arrays \<open>ipDomainCounts\<close> and \<open>domainIPCounts\<close> before their final sort, and each call of
  \<open>sort\<close> may return any result the language allows.
\<close>

definition processDataRun :: "row list \<Rightarrow> analysis \<Rightarrow> bool" where
  "processDataRun data result =
     (let validData = filter validRow data;
          enrichedData = map enrich validData;
          ipToDomains = groupBy enrichedData ipKey;
          domainToIPs = groupBy enrichedData domainKey;
          domainCounts = countBy enrichedData domainKey;
          ipCounts = countBy enrichedData ipKey
      in (\<exists>ipEntries domainEntries.
            list_all2 ipDomainCountRun (objectEntries ipToDomains) ipEntries
            \<and> list_all2 domainIPCountRun (objectEntries domainToIPs) domainEntries
            \<and> sortResult snd (objectEntries domainCounts) (topDomains result)
            \<and> sortResult snd (objectEntries ipCounts) (topIPs result)
            \<and> summary result =
                \<lparr>totalRecords = length enrichedData,
                 uniqueDomains = length (objectKeys domainCounts),
                 uniqueIPs = length (objectKeys ipCounts),
                 queryTypes = queryTypeData enrichedData\<rparr>
            \<and> sortResult ic_totalQueries ipEntries (ipDomainCounts result)
            \<and> sortResult dc_totalQueries domainEntries (domainIPCounts result)))"

section \<open>Device table of the preprocessing script\<close>

text \<open>
  Modelled from the spec: the \<open>LogRecord\<close> of the preprocessing script \<open>dns-analysis.py\<close>,
  which is not among the sources, with its status and source enums. The \<open>Device\<close> record
  (\<open>ip\<close>, \<open>query_count\<close>, \<open>unique_domains\<close>, \<open>blocked_count\<close>, \<open>blocked_percentage\<close>)
  follows the interface declared in the type file of the web application; its numbers are
  counts, and the percentage is an exact rational.
\<close>

datatype status = Allowed | Blocked | Unknown

datatype source = RouterOS | NextDNS

record logRecord =
  timestamp :: int
  query_domain :: string
  base_domain :: string
  client_ip :: string
  query_type :: string
  status :: status
  source :: source

record device =
  ip :: string
  query_count :: nat
  unique_domains :: nat
  blocked_count :: nat
  blocked_percentage :: rat

text \<open>
  Modelled from the spec: one row of the NextDNS export, as the tabular reader of the missing
  \<open>dns-analysis.py\<close> returns it.
\<close>

record nextdnsRow =
  nd_timestamp :: int
  nd_domain :: string
  nd_client_ip :: string
  nd_query_type :: string
  nd_status :: string

text \<open>
  Modelled from the spec: the case-insensitive folding of the status vocabulary, missing
  with \<open>dns-analysis.py\<close>. The ASCII letters are folded to lower case; every other
  character is kept.
\<close>

definition lowerChar :: "char \<Rightarrow> char" where
  "lowerChar c =
     (case map_of (zip ''ABCDEFGHIJKLMNOPQRSTUVWXYZ'' ''abcdefghijklmnopqrstuvwxyz'') c of
        Some l \<Rightarrow> l
      | None \<Rightarrow> c)"

definition lowercase :: "string \<Rightarrow> string" where
  "lowercase s = map lowerChar s"

text \<open>
  Modelled from the spec: the status normalisation of the NextDNS parser of
  \<open>dns-analysis.py\<close>, which is missing. The raw status is folded case-insensitively into
  \<open>{allowed, blocked, unknown}\<close>. The names of the enum are recognised in any spelling of
  case; the further vocabulary of the source (for example boolean-like values), which the
  specification does not list, is the parameter \<open>vocabulary\<close>, a table from lower-cased
  spellings to states; everything else is \<open>unknown\<close>.
\<close>

definition normalizeStatus :: "(string \<times> status) list \<Rightarrow> string \<Rightarrow> status" where
  "normalizeStatus vocabulary raw =
     (let s = lowercase raw in
      if s = ''blocked'' then Blocked
      else if s = ''allowed'' then Allowed
      else (case map_of vocabulary s of Some st \<Rightarrow> st | None \<Rightarrow> Unknown))"

text \<open>
  Modelled from the spec: the NextDNS parser's construction of a \<open>LogRecord\<close> from a row,
  missing with \<open>dns-analysis.py\<close>. The query domain is lower-cased, the base domain comes
  from the domain normalizer, the status is the normalised one, and a row without query
  domain or client IP gives no record.
\<close>

definition nextdnsRecord :: "(string \<times> status) list \<Rightarrow> nextdnsRow \<Rightarrow> logRecord option" where
  "nextdnsRecord vocabulary r =
     (if nd_domain r = [] \<or> nd_client_ip r = [] then None
      else Some \<lparr>timestamp = nd_timestamp r,
                 query_domain = lowercase (nd_domain r),
                 base_domain = (case extractBaseDomain (lowercase (nd_domain r)) of
                                  Some b \<Rightarrow> b | None \<Rightarrow> []),
                 client_ip = nd_client_ip r,
                 query_type = nd_query_type r,
                 status = normalizeStatus vocabulary (nd_status r),
                 source = NextDNS\<rparr>)"

text \<open>
  Modelled from the spec: the percentage of a device, missing with \<open>dns-analysis.py\<close>:
  \<open>blocked_count / query_count * 100\<close>, and 0 when \<open>query_count\<close> is 0. The arithmetic is
  exact (rational numbers).
\<close>

definition blockedPercentage :: "nat \<Rightarrow> nat \<Rightarrow> rat" where
  "blockedPercentage blocked queries =
     (if queries = 0 then 0 else of_nat blocked / of_nat queries * 100)"

text \<open>
  Modelled from the spec: the device table of the aggregator, missing with
  \<open>dns-analysis.py\<close>: one entry per distinct \<open>client_ip\<close>, with the number of its records,
  the number of distinct \<open>base_domain\<close> values among them, and the count and percentage of
  its records whose normalised status is \<open>blocked\<close>.
\<close>

definition deviceOf :: "logRecord list \<Rightarrow> string \<Rightarrow> device" where
  "deviceOf records a =
     (let mine = filter (\<lambda>r. client_ip r = a) records;
          blocked = length (filter (\<lambda>r. status r = Blocked) mine)
      in \<lparr>ip = a,
          query_count = length mine,
          unique_domains = length (remdups (map base_domain mine)),
          blocked_count = blocked,
          blocked_percentage = blockedPercentage blocked (length mine)\<rparr>)"

text \<open>
  Modelled from the spec: the device table itself, missing with \<open>dns-analysis.py\<close>: the
  entries of the distinct client IPs of the records.
\<close>

definition aggregateDevices :: "logRecord list \<Rightarrow> device list" where
  "aggregateDevices records = map (deviceOf records) (remdups (map client_ip records))"

text \<open>
  Modelled from the spec: the devices of a NextDNS export, missing with
  \<open>dns-analysis.py\<close>: every row is parsed, then the records are aggregated.
\<close>

definition nextdnsDevices :: "(string \<times> status) list \<Rightarrow> nextdnsRow list \<Rightarrow> device list" where
  "nextdnsDevices vocabulary rows =
     aggregateDevices (List.map_filter (nextdnsRecord vocabulary) rows)"

section \<open>Properties of the domain normalizer\<close>

lemma splitDot_ne: "splitDot s \<noteq> []"
  by (induction s) (auto split: list.splits)

lemma joinDot_Cons: "ps \<noteq> [] \<Longrightarrow> joinDot (p # ps) = p @ CHR ''.'' # joinDot ps"
  by (cases ps) auto

lemma joinDot_Cons_Cons: "joinDot ((c # p) # ps) = c # joinDot (p # ps)"
  by (cases ps) auto

lemma joinDot_splitDot: "joinDot (splitDot s) = s"
proof (induction s)
  case Nil
  show ?case by simp
next
  case (Cons c s)
  obtain p ps where sp: "splitDot s = p # ps"
    using splitDot_ne [of s] by (cases "splitDot s") auto
  show ?case
  proof (cases "c = CHR ''.''")
    case True
    then show ?thesis using Cons splitDot_ne [of s] by (simp add: joinDot_Cons)
  next
    case False
    then show ?thesis using Cons sp by (simp add: joinDot_Cons_Cons)
  qed
qed

lemma splitDot_append: "splitDot (xs @ CHR ''.'' # ys) = splitDot xs @ splitDot ys"
  by (induction xs) (auto split: list.splits simp: splitDot_ne)

lemma joinDot_append: "a \<noteq> [] \<Longrightarrow> b \<noteq> [] \<Longrightarrow> joinDot (a @ b) = joinDot a @ CHR ''.'' # joinDot b"
  by (induction a rule: joinDot.induct) (auto simp: neq_Nil_conv)

lemma joinDot_drop_suffix: "suffix (joinDot (drop n ps)) (joinDot ps)"
proof (cases "n = 0 \<or> length ps \<le> n")
  case True
  then show ?thesis by (auto simp: suffix_def)
next
  case False
  then have a: "take n ps \<noteq> []" and b: "drop n ps \<noteq> []" by auto
  have "joinDot ps = joinDot (take n ps @ drop n ps)" by simp
  also have "\<dots> = joinDot (take n ps) @ CHR ''.'' # joinDot (drop n ps)"
    using a b by (rule joinDot_append)
  finally show ?thesis by (metis suffix_def append.assoc append_Cons append_Nil)
qed

lemma endsWith_suffix: "endsWith s t \<longleftrightarrow> suffix t s"
  unfolding endsWith_def suffix_def
  by (metis append_eq_conv_conj append_take_drop_id diff_add_inverse2 length_append length_drop le_add2)

lemma splitDot_single: "length (splitDot q) < 2 \<Longrightarrow> splitDot q = [q]"
proof -
  assume "length (splitDot q) < 2"
  then obtain p where "splitDot q = [p]"
    using splitDot_ne [of q] by (cases "splitDot q") (auto simp: neq_Nil_conv Suc_lessI)
  then show ?thesis using joinDot_splitDot [of q] by simp
qed

lemma sliceLast2_two:
  assumes "2 \<le> length ps"
  shows "\<exists>pre l1 l2. ps = pre @ [l1, l2] \<and> joinDot (sliceLast2 ps) = l1 @ ''.'' @ l2"
proof -
  let ?d = "drop (length ps - 2) ps"
  have "length ?d = 2" using assms by simp
  then obtain l1 l2 where d: "?d = [l1, l2]"
    by (metis (no_types, opaque_lifting) One_nat_def Suc_1 length_0_conv length_Suc_conv)
  have "ps = take (length ps - 2) ps @ [l1, l2]" using d by (metis append_take_drop_id)
  moreover have "joinDot (sliceLast2 ps) = l1 @ ''.'' @ l2" using d by (simp add: sliceLast2_def)
  ultimately show ?thesis by blast
qed

lemma sliceLast2_append2: "sliceLast2 (pre @ [l1, l2]) = [l1, l2]"
  by (simp add: sliceLast2_def)

lemma extractBaseDomain_cases:
  "q \<noteq> [] \<Longrightarrow> extractBaseDomain q = Some (if 2 \<le> length (splitDot q) then joinDot (sliceLast2 (splitDot q)) else q)"
  using splitDot_single [of q]
  by (auto simp: extractBaseDomain_def Let_def sliceLast2_def not_le)

lemma extractBaseDomain_drop:
  "q \<noteq> [] \<Longrightarrow> extractBaseDomain q = Some (joinDot (drop (length (splitDot q) - 2) (splitDot q)))"
  using splitDot_single [of q]
  by (auto simp: extractBaseDomain_cases sliceLast2_def not_le)

text \<open>
  Claim C10. For every non-empty query string the domain normalizer returns a result
  (never \<open>null\<close>), the result is a suffix of the input, it is the join of a run of the
  trailing dot-separated labels of the input, and all its characters occur in the input.
\<close>

theorem extractBaseDomain_suffix:
  assumes "q \<noteq> []"
  shows "\<exists>r. extractBaseDomain q = Some r \<and> suffix r q
           \<and> (\<exists>n. r = joinDot (drop n (splitDot q))) \<and> set r \<subseteq> set q"
proof -
  let ?r = "joinDot (drop (length (splitDot q) - 2) (splitDot q))"
  have e: "extractBaseDomain q = Some ?r" using assms by (rule extractBaseDomain_drop)
  have s: "suffix ?r q"
    using joinDot_drop_suffix [of "length (splitDot q) - 2" "splitDot q"]
    by (simp add: joinDot_splitDot)
  then have "set ?r \<subseteq> set q" by (rule set_mono_suffix)
  with e s show ?thesis by blast
qed

text \<open>
  The theorem at \<open>"www.example.com"\<close>, where the normalizer returns \<open>"example.com"\<close>.
\<close>

theorem extractBaseDomain_suffix_witness:
  "''www.example.com'' \<noteq> [] \<and>
   (\<exists>r. extractBaseDomain ''www.example.com'' = Some r \<and> suffix r ''www.example.com''
      \<and> (\<exists>n. r = joinDot (drop n (splitDot ''www.example.com'')))
      \<and> set r \<subseteq> set ''www.example.com'')
   \<and> extractBaseDomain ''www.example.com'' = Some ''example.com''"
  using extractBaseDomain_suffix [of "''www.example.com''"]
  by (simp add: extractBaseDomain_def endsWith_def sliceLast2_def)

lemma reverse_labels:
  assumes "endsWith q (CHR ''.'' # l1 @ CHR ''.'' # l2)"
    and "CHR ''.'' \<notin> set l1" and "CHR ''.'' \<notin> set l2"
  shows "\<exists>pre. splitDot q = pre @ [l1, l2]"
proof -
  obtain p where q: "q = p @ CHR ''.'' # l1 @ CHR ''.'' # l2"
    using assms(1) by (auto simp: endsWith_suffix suffix_def)
  have n1: "splitDot l1 = [l1]" using assms(2) by (induction l1) auto
  have n2: "splitDot l2 = [l2]" using assms(3) by (induction l2) auto
  have "splitDot q = splitDot p @ splitDot l1 @ splitDot l2"
    unfolding q by (simp add: splitDot_append)
  then show ?thesis using n1 n2 by simp
qed

text \<open>
  Claim C2, as amended. For every query string ending with \<open>".in-addr.arpa"\<close> or
  \<open>".ip6.arpa"\<close> the normalizer returns the last two dot-separated labels of the original
  string. These are the labels of the suffix itself, so the result is \<open>"in-addr.arpa"\<close> or
  \<open>"ip6.arpa"\<close>; the label before the suffix is never part of it.
\<close>

theorem extractBaseDomain_reverse:
  assumes "endsWith q ''.in-addr.arpa'' \<or> endsWith q ''.ip6.arpa''"
  shows "\<exists>pre l1 l2. splitDot q = pre @ [l1, l2]
           \<and> extractBaseDomain q = Some (l1 @ ''.'' @ l2)
           \<and> l1 @ ''.'' @ l2 = (if endsWith q ''.in-addr.arpa'' then ''in-addr.arpa'' else ''ip6.arpa'')"
proof -
  have ne: "q \<noteq> []" using assms by (auto simp: endsWith_def)
  show ?thesis
  proof (cases "endsWith q ''.in-addr.arpa''")
    case True
    then obtain pre where p: "splitDot q = pre @ [''in-addr'', ''arpa'']"
      using reverse_labels [of q "''in-addr''" "''arpa''"] by auto
    have "extractBaseDomain q = Some (''in-addr'' @ ''.'' @ ''arpa'')"
      using ne p by (simp add: extractBaseDomain_cases sliceLast2_def)
    with p True show ?thesis by auto
  next
    case False
    with assms have "endsWith q ''.ip6.arpa''" by simp
    then obtain pre where p: "splitDot q = pre @ [''ip6'', ''arpa'']"
      using reverse_labels [of q "''ip6''" "''arpa''"] by auto
    have "extractBaseDomain q = Some (''ip6'' @ ''.'' @ ''arpa'')"
      using ne p by (simp add: extractBaseDomain_cases sliceLast2_def)
    with p False show ?thesis by auto
  qed
qed

text \<open>
  The theorem at \<open>"44.8.0.10.in-addr.arpa"\<close>: the labels are \<open>44, 8, 0, 10, in-addr, arpa\<close>
  and the result is \<open>"in-addr.arpa"\<close>.
\<close>

theorem extractBaseDomain_reverse_witness:
  "endsWith ''44.8.0.10.in-addr.arpa'' ''.in-addr.arpa''
   \<and> splitDot ''44.8.0.10.in-addr.arpa'' = [''44'', ''8'', ''0'', ''10''] @ [''in-addr'', ''arpa'']
   \<and> extractBaseDomain ''44.8.0.10.in-addr.arpa'' = Some ''in-addr.arpa''"
  using extractBaseDomain_reverse [of "''44.8.0.10.in-addr.arpa''"]
  by (simp add: extractBaseDomain_def endsWith_def sliceLast2_def)

text \<open>
  Claim C2 as stated gives \<open>"10.in-addr.arpa"\<close> for \<open>"44.8.0.10.in-addr.arpa"\<close>; that string
  has three labels, and the function does not return it.
\<close>

theorem extractBaseDomain_reverse_counterexample:
  "endsWith ''44.8.0.10.in-addr.arpa'' ''.in-addr.arpa''
   \<and> extractBaseDomain ''44.8.0.10.in-addr.arpa'' \<noteq> Some ''10.in-addr.arpa''"
  by (simp add: extractBaseDomain_def endsWith_def sliceLast2_def)

text \<open>
  Claim C6. For every query string that does not end in a reverse-DNS suffix, the normalizer
  returns the last two labels of the split on \<open>"."\<close>, joined by a dot, when there are at
  least two labels, and the input unchanged otherwise. A query string is not empty: the
  contract of the normalizer sets empty input apart (no base domain, record excluded
  upstream), and \<open>processData\<close> calls the normalizer only on the non-empty strings that pass
  its filter (\<open>enrich_valid\<close> below).
\<close>

theorem extractBaseDomain_ordinary:
  assumes "q \<noteq> []"
    and "\<not> endsWith q ''.in-addr.arpa''" and "\<not> endsWith q ''.ip6.arpa''"
  shows "(2 \<le> length (splitDot q) \<longrightarrow>
            (\<exists>pre l1 l2. splitDot q = pre @ [l1, l2]
               \<and> extractBaseDomain q = Some (l1 @ ''.'' @ l2)))
         \<and> (length (splitDot q) < 2 \<longrightarrow> extractBaseDomain q = Some q)"
proof (intro conjI impI)
  assume two: "2 \<le> length (splitDot q)"
  then obtain pre l1 l2 where
    "splitDot q = pre @ [l1, l2]" "joinDot (sliceLast2 (splitDot q)) = l1 @ ''.'' @ l2"
    using sliceLast2_two by blast
  moreover have "extractBaseDomain q = Some (joinDot (sliceLast2 (splitDot q)))"
    using assms two by (simp add: extractBaseDomain_def)
  ultimately show "\<exists>pre l1 l2. splitDot q = pre @ [l1, l2]
      \<and> extractBaseDomain q = Some (l1 @ ''.'' @ l2)"
    by auto
next
  assume "length (splitDot q) < 2"
  then show "extractBaseDomain q = Some q"
    using assms by (simp add: extractBaseDomain_def)
qed

text \<open>
  The theorem at \<open>"a.b.example.com"\<close> (result \<open>"example.com"\<close>) and at \<open>"localhost"\<close>
  (one label, returned unchanged).
\<close>

theorem extractBaseDomain_ordinary_witness:
  "extractBaseDomain ''a.b.example.com'' = Some ''example.com''
   \<and> splitDot ''a.b.example.com'' = [''a'', ''b''] @ [''example'', ''com'']
   \<and> extractBaseDomain ''localhost'' = Some ''localhost''
   \<and> length (splitDot ''localhost'') < 2"
  using extractBaseDomain_ordinary [of "''a.b.example.com''"]
    extractBaseDomain_ordinary [of "''localhost''"]
  by (simp add: extractBaseDomain_def endsWith_def sliceLast2_def)

text \<open>
  The empty string, which the aggregation never passes, has no base domain.
\<close>

lemma extractBaseDomain_empty: "extractBaseDomain [] = None"
  by (simp add: extractBaseDomain_def)

section \<open>Properties of the aggregation\<close>

lemma groupAssign_sum:
  "sum_list (map (\<lambda>kv. length (snd kv)) (groupAssign k v obj))
     = Suc (sum_list (map (\<lambda>kv. length (snd kv)) obj))"
  by (induction k v obj rule: groupAssign.induct) auto

lemma foldl_groupAssign_sum:
  "sum_list (map (\<lambda>kv. length (snd kv)) (foldl (\<lambda>result v. groupAssign (f v) v result) acc xs))
     = sum_list (map (\<lambda>kv. length (snd kv)) acc) + length xs"
  by (induction xs arbitrary: acc) (simp_all add: groupAssign_sum)

lemma groupBy_sum: "sum_list (map (\<lambda>kv. length (snd kv)) (groupBy xs f)) = length xs"
  by (simp add: groupBy_def foldl_groupAssign_sum)

lemma countAssign_sum: "sum_list (map snd (countAssign k obj)) = Suc (sum_list (map snd obj))"
  by (induction k obj rule: countAssign.induct) auto

lemma foldl_countAssign_sum:
  "sum_list (map snd (foldl (\<lambda>result v. countAssign (f v) result) acc xs))
     = sum_list (map snd acc) + length xs"
  by (induction xs arbitrary: acc) (simp_all add: countAssign_sum)

lemma countBy_sum: "sum_list (map snd (countBy xs f)) = length xs"
  by (simp add: countBy_def foldl_countAssign_sum)

lemma mset_objectEntries: "mset (objectEntries obj) = mset obj"
  by (simp add: objectEntries_def)

lemma length_objectEntries: "length (objectEntries obj) = length obj"
  using mset_objectEntries [of obj] by (metis size_mset)

lemma set_objectEntries: "set (objectEntries obj) = set obj"
  using mset_objectEntries [of obj] by (metis set_mset_mset)

lemma sum_list_objectEntries:
  "sum_list (map g (objectEntries obj)) = (sum_list (map g obj) :: nat)"
proof -
  have "mset (map g (objectEntries obj)) = mset (map g obj)"
    by (simp add: mset_objectEntries)
  then show ?thesis by (metis sum_mset_sum_list)
qed

lemma mset_sortByDesc: "mset (sortByDesc f xs) = mset xs"
  by (simp add: sortByDesc_def)

lemma length_sortByDesc: "length (sortByDesc f xs) = length xs"
  by (simp add: sortByDesc_def)

lemma set_sortByDesc: "set (sortByDesc f xs) = set xs"
  by (simp add: sortByDesc_def)

lemma sum_list_sortByDesc:
  "sum_list (map g (sortByDesc f xs)) = (sum_list (map g xs) :: nat)"
proof -
  have "mset (map g (sortByDesc f xs)) = mset (map g xs)"
    by (simp add: mset_sortByDesc)
  then show ?thesis by (metis sum_mset_sum_list)
qed

lemma sorted_sortByDesc: "sorted_wrt (\<lambda>a b. f b \<le> f a) (sortByDesc f xs)"
proof -
  have "sorted (map (\<lambda>x. - int (f x)) (sortByDesc f xs))"
    unfolding sortByDesc_def by (rule sorted_sort_key)
  then show ?thesis by (simp add: sorted_map)
qed

lemma sortByDesc_stable:
  "filter (\<lambda>x. f x = c) (sortByDesc f xs) = filter (\<lambda>x. f x = c) xs"
proof -
  have "filter (\<lambda>x. - int (f x) = - int c) (sort_key (\<lambda>x. - int (f x)) xs)
          = filter (\<lambda>x. - int (f x) = - int c) xs"
    by (rule sort_key_stable)
  then show ?thesis by (simp add: sortByDesc_def)
qed

lemma ipDomainCountOf_total: "ic_totalQueries (ipDomainCountOf e) = length (snd e)"
  by (simp add: ipDomainCountOf_def Let_def)

lemma domainIPCountOf_total: "dc_totalQueries (domainIPCountOf e) = length (snd e)"
  by (simp add: domainIPCountOf_def Let_def)

lemma ipDomainCountOf_consistent:
  "ic_uniqueDomains (ipDomainCountOf e) = length (ic_domains (ipDomainCountOf e))
   \<and> sum_list (map snd (ic_domains (ipDomainCountOf e))) = ic_totalQueries (ipDomainCountOf e)"
  by (simp add: ipDomainCountOf_def Let_def objectKeys_def length_sortByDesc
      sum_list_sortByDesc sum_list_objectEntries countBy_sum)

lemma domainIPCountOf_consistent:
  "dc_uniqueIPs (domainIPCountOf e) = length (dc_ips (domainIPCountOf e))
   \<and> sum_list (map snd (dc_ips (domainIPCountOf e))) = dc_totalQueries (domainIPCountOf e)"
  by (simp add: domainIPCountOf_def Let_def objectKeys_def length_sortByDesc
      sum_list_sortByDesc sum_list_objectEntries countBy_sum)

lemma ipDomainCounts_eq:
  "ipDomainCounts (processData data) =
     sortByDesc ic_totalQueries
       (map ipDomainCountOf (objectEntries (groupBy (map enrich (filter validRow data)) ipKey)))"
  by (simp add: processData_def Let_def)

lemma domainIPCounts_eq:
  "domainIPCounts (processData data) =
     sortByDesc dc_totalQueries
       (map domainIPCountOf (objectEntries (groupBy (map enrich (filter validRow data)) domainKey)))"
  by (simp add: processData_def Let_def)

lemma topDomains_eq:
  "topDomains (processData data) =
     sortByDesc snd (objectEntries (countBy (map enrich (filter validRow data)) domainKey))"
  by (simp add: processData_def Let_def)

lemma topIPs_eq:
  "topIPs (processData data) =
     sortByDesc snd (objectEntries (countBy (map enrich (filter validRow data)) ipKey))"
  by (simp add: processData_def Let_def)

lemma totalRecords_eq:
  "totalRecords (summary (processData data)) = length (filter validRow data)"
  by (simp add: processData_def Let_def)

text \<open>
  Claim C3. The per-IP query counts sum to the total record count of the summary: the
  grouping by client IP partitions the valid records. The same holds for the counts of
  the top-IP list.
\<close>

theorem device_counts_sum_to_total:
  "sum_list (map ic_totalQueries (ipDomainCounts (processData data)))
     = totalRecords (summary (processData data))
   \<and> sum_list (map snd (topIPs (processData data)))
     = totalRecords (summary (processData data))"
proof
  have "sum_list (map ic_totalQueries (ipDomainCounts (processData data)))
      = sum_list (map (\<lambda>kv. length (snd kv))
          (groupBy (map enrich (filter validRow data)) ipKey))"
    by (simp add: ipDomainCounts_eq sum_list_sortByDesc comp_def ipDomainCountOf_total
        sum_list_objectEntries)
  then show "sum_list (map ic_totalQueries (ipDomainCounts (processData data)))
     = totalRecords (summary (processData data))"
    by (simp add: groupBy_sum totalRecords_eq)
  show "sum_list (map snd (topIPs (processData data)))
     = totalRecords (summary (processData data))"
    by (simp add: topIPs_eq sum_list_sortByDesc sum_list_objectEntries countBy_sum
        totalRecords_eq)
qed

text \<open>
  The theorem on three rows of two clients: the per-IP totals 2 and 1 sum to the 3 records.
\<close>

theorem device_counts_sum_to_total_witness:
  "sum_list (map ic_totalQueries (ipDomainCounts (processData
     [\<lparr>queryValue = JStr ''b.com'', clientIP = JStr ''10.0.0.2'', queryType = JStr ''A''\<rparr>,
      \<lparr>queryValue = JStr ''a.com'', clientIP = JStr ''10.0.0.1'', queryType = JStr ''A''\<rparr>,
      \<lparr>queryValue = JStr ''x.a.com'', clientIP = JStr ''10.0.0.2'', queryType = JStr ''A''\<rparr>]))) = 3
   \<and> totalRecords (summary (processData
     [\<lparr>queryValue = JStr ''b.com'', clientIP = JStr ''10.0.0.2'', queryType = JStr ''A''\<rparr>,
      \<lparr>queryValue = JStr ''a.com'', clientIP = JStr ''10.0.0.1'', queryType = JStr ''A''\<rparr>,
      \<lparr>queryValue = JStr ''x.a.com'', clientIP = JStr ''10.0.0.2'', queryType = JStr ''A''\<rparr>])) = 3"
proof -
  have "totalRecords (summary (processData
     [\<lparr>queryValue = JStr ''b.com'', clientIP = JStr ''10.0.0.2'', queryType = JStr ''A''\<rparr>,
      \<lparr>queryValue = JStr ''a.com'', clientIP = JStr ''10.0.0.1'', queryType = JStr ''A''\<rparr>,
      \<lparr>queryValue = JStr ''x.a.com'', clientIP = JStr ''10.0.0.2'', queryType = JStr ''A''\<rparr>])) = 3"
    by (simp add: totalRecords_eq validRow_def)
  then show ?thesis
    using device_counts_sum_to_total [of
     "[\<lparr>queryValue = JStr ''b.com'', clientIP = JStr ''10.0.0.2'', queryType = JStr ''A''\<rparr>,
      \<lparr>queryValue = JStr ''a.com'', clientIP = JStr ''10.0.0.1'', queryType = JStr ''A''\<rparr>,
      \<lparr>queryValue = JStr ''x.a.com'', clientIP = JStr ''10.0.0.2'', queryType = JStr ''A''\<rparr>]"]
    by simp
qed

text \<open>
  Claim C9. In every entry of the IP-to-domains view the unique-domain count is the length
  of the domains list and the counts of that list sum to the entry's total; symmetrically
  for every entry of the domain-to-IPs view.
\<close>

theorem relationship_entries_consistent:
  "(\<forall>e \<in> set (ipDomainCounts (processData data)).
      ic_uniqueDomains e = length (ic_domains e)
      \<and> sum_list (map snd (ic_domains e)) = ic_totalQueries e)
   \<and> (\<forall>e \<in> set (domainIPCounts (processData data)).
      dc_uniqueIPs e = length (dc_ips e)
      \<and> sum_list (map snd (dc_ips e)) = dc_totalQueries e)"
  using ipDomainCountOf_consistent domainIPCountOf_consistent
  by (auto simp: ipDomainCounts_eq domainIPCounts_eq set_sortByDesc)

text \<open>
  The theorem on the same three rows: the entry of \<open>10.0.0.2\<close> lists two domains with
  one query each, and every entry of both views satisfies the two equations.
\<close>

theorem relationship_entries_consistent_witness:
  "ipDomainCounts (processData
     [\<lparr>queryValue = JStr ''b.com'', clientIP = JStr ''10.0.0.2'', queryType = JStr ''A''\<rparr>,
      \<lparr>queryValue = JStr ''a.com'', clientIP = JStr ''10.0.0.1'', queryType = JStr ''A''\<rparr>,
      \<lparr>queryValue = JStr ''x.a.com'', clientIP = JStr ''10.0.0.2'', queryType = JStr ''A''\<rparr>])
   = [\<lparr>ic_ip = ''10.0.0.2'', ic_uniqueDomains = 2, ic_totalQueries = 2,
        ic_domains = [(''b.com'', 1), (''a.com'', 1)]\<rparr>,
      \<lparr>ic_ip = ''10.0.0.1'', ic_uniqueDomains = 1, ic_totalQueries = 1,
        ic_domains = [(''a.com'', 1)]\<rparr>]
   \<and> list_all (\<lambda>e. ic_uniqueDomains e = length (ic_domains e)
        \<and> sum_list (map snd (ic_domains e)) = ic_totalQueries e)
     (ipDomainCounts (processData
     [\<lparr>queryValue = JStr ''b.com'', clientIP = JStr ''10.0.0.2'', queryType = JStr ''A''\<rparr>,
      \<lparr>queryValue = JStr ''a.com'', clientIP = JStr ''10.0.0.1'', queryType = JStr ''A''\<rparr>,
      \<lparr>queryValue = JStr ''x.a.com'', clientIP = JStr ''10.0.0.2'', queryType = JStr ''A''\<rparr>]))
   \<and> list_all (\<lambda>e. dc_uniqueIPs e = length (dc_ips e)
        \<and> sum_list (map snd (dc_ips e)) = dc_totalQueries e)
     (domainIPCounts (processData
     [\<lparr>queryValue = JStr ''b.com'', clientIP = JStr ''10.0.0.2'', queryType = JStr ''A''\<rparr>,
      \<lparr>queryValue = JStr ''a.com'', clientIP = JStr ''10.0.0.1'', queryType = JStr ''A''\<rparr>,
      \<lparr>queryValue = JStr ''x.a.com'', clientIP = JStr ''10.0.0.2'', queryType = JStr ''A''\<rparr>]))"
proof -
  have e: "ipDomainCounts (processData
     [\<lparr>queryValue = JStr ''b.com'', clientIP = JStr ''10.0.0.2'', queryType = JStr ''A''\<rparr>,
      \<lparr>queryValue = JStr ''a.com'', clientIP = JStr ''10.0.0.1'', queryType = JStr ''A''\<rparr>,
      \<lparr>queryValue = JStr ''x.a.com'', clientIP = JStr ''10.0.0.2'', queryType = JStr ''A''\<rparr>])
   = [\<lparr>ic_ip = ''10.0.0.2'', ic_uniqueDomains = 2, ic_totalQueries = 2,
        ic_domains = [(''b.com'', 1), (''a.com'', 1)]\<rparr>,
      \<lparr>ic_ip = ''10.0.0.1'', ic_uniqueDomains = 1, ic_totalQueries = 1,
        ic_domains = [(''a.com'', 1)]\<rparr>]"
    by code_simp
  show ?thesis
    using relationship_entries_consistent [of
     "[\<lparr>queryValue = JStr ''b.com'', clientIP = JStr ''10.0.0.2'', queryType = JStr ''A''\<rparr>,
      \<lparr>queryValue = JStr ''a.com'', clientIP = JStr ''10.0.0.1'', queryType = JStr ''A''\<rparr>,
      \<lparr>queryValue = JStr ''x.a.com'', clientIP = JStr ''10.0.0.2'', queryType = JStr ''A''\<rparr>]"]
    unfolding list_all_iff using e by blast
qed

lemma validRow_iff:
  "validRow r \<longleftrightarrow> (\<exists>q i. q \<noteq> [] \<and> i \<noteq> [] \<and> queryValue r = JStr q \<and> clientIP r = JStr i)"
  by (cases "queryValue r"; cases "clientIP r") (auto simp: validRow_def)

lemma processData_filter: "processData (filter validRow data) = processData data"
  by (simp add: processData_def)

text \<open>
  What the aggregation passes to the normalizer: the query value of a row that passed the
  filter, a non-empty string.
\<close>

lemma enrich_valid:
  assumes "validRow r"
  shows "\<exists>q. q \<noteq> [] \<and> queryValue r = JStr q \<and> baseDomain (enrich r) = extractBaseDomain q"
  using assms by (auto simp: validRow_iff enrich_def)

text \<open>
  Claim C4. A row whose query value or client IP is missing (absent, \<open>null\<close> or empty) is
  dropped before the aggregation: the result with the row equals the result without it, the
  whole result is the one computed from the rows that pass the filter, the total counts
  exactly those rows, and in each of them both fields are non-empty strings. The function
  is total, so a dropped row never aborts the batch.
\<close>

theorem invalid_rows_dropped:
  "(queryValue r \<in> {JUndefined, JNull, JStr []} \<or> clientIP r \<in> {JUndefined, JNull, JStr []}
      \<longrightarrow> processData (xs @ r # ys) = processData (xs @ ys))
   \<and> processData data = processData (filter validRow data)
   \<and> totalRecords (summary (processData data)) = length (filter validRow data)
   \<and> (\<forall>r \<in> set (filter validRow data).
        \<exists>q i. q \<noteq> [] \<and> i \<noteq> [] \<and> queryValue r = JStr q \<and> clientIP r = JStr i)"
proof (intro conjI impI)
  assume "queryValue r \<in> {JUndefined, JNull, JStr []} \<or> clientIP r \<in> {JUndefined, JNull, JStr []}"
  then have "\<not> validRow r" by (auto simp: validRow_def)
  then have "filter validRow (xs @ r # ys) = filter validRow (xs @ ys)" by simp
  then show "processData (xs @ r # ys) = processData (xs @ ys)"
    by (metis processData_filter)
next
  show "processData data = processData (filter validRow data)"
    by (simp add: processData_filter)
  show "totalRecords (summary (processData data)) = length (filter validRow data)"
    by (simp add: processData_def Let_def)
  show "\<forall>r \<in> set (filter validRow data).
        \<exists>q i. q \<noteq> [] \<and> i \<noteq> [] \<and> queryValue r = JStr q \<and> clientIP r = JStr i"
    by (simp add: validRow_iff)
qed

text \<open>
  The theorem on three rows, the second with a \<open>null\<close> query value: the result is the one
  of the other two rows, and the total is 2.
\<close>

theorem invalid_rows_dropped_witness:
  "processData
     [\<lparr>queryValue = JStr ''a.example.com'', clientIP = JStr ''10.0.0.1'', queryType = JStr ''A''\<rparr>,
      \<lparr>queryValue = JNull, clientIP = JStr ''10.0.0.1'', queryType = JStr ''A''\<rparr>,
      \<lparr>queryValue = JStr ''b.example.com'', clientIP = JStr ''10.0.0.2'', queryType = JStr ''A''\<rparr>]
   = processData
     [\<lparr>queryValue = JStr ''a.example.com'', clientIP = JStr ''10.0.0.1'', queryType = JStr ''A''\<rparr>,
      \<lparr>queryValue = JStr ''b.example.com'', clientIP = JStr ''10.0.0.2'', queryType = JStr ''A''\<rparr>]
   \<and> totalRecords (summary (processData
     [\<lparr>queryValue = JStr ''a.example.com'', clientIP = JStr ''10.0.0.1'', queryType = JStr ''A''\<rparr>,
      \<lparr>queryValue = JNull, clientIP = JStr ''10.0.0.1'', queryType = JStr ''A''\<rparr>,
      \<lparr>queryValue = JStr ''b.example.com'', clientIP = JStr ''10.0.0.2'', queryType = JStr ''A''\<rparr>])) = 2"
  using invalid_rows_dropped [of
     "\<lparr>queryValue = JNull, clientIP = JStr ''10.0.0.1'', queryType = JStr ''A''\<rparr>"
     "[\<lparr>queryValue = JStr ''a.example.com'', clientIP = JStr ''10.0.0.1'', queryType = JStr ''A''\<rparr>]"
     "[\<lparr>queryValue = JStr ''b.example.com'', clientIP = JStr ''10.0.0.2'', queryType = JStr ''A''\<rparr>]"
     "[\<lparr>queryValue = JStr ''a.example.com'', clientIP = JStr ''10.0.0.1'', queryType = JStr ''A''\<rparr>,
      \<lparr>queryValue = JNull, clientIP = JStr ''10.0.0.1'', queryType = JStr ''A''\<rparr>,
      \<lparr>queryValue = JStr ''b.example.com'', clientIP = JStr ''10.0.0.2'', queryType = JStr ''A''\<rparr>]"]
  by (auto simp: validRow_def)

text \<open>
  Claim C5, as amended. Every ranking of the result (top domains, top IPs, the domains list
  of each per-IP entry, the IPs list of each per-domain entry, and the two lists of entries
  by total) is sorted descending by count. Equal counts are not ordered by the secondary
  key: the sort compares the counts alone and is stable, so the top-domain and top-IP lists
  keep tied entries in the order in which \<open>Object.entries\<close> enumerates the counted keys.
\<close>

theorem rankings_descending:
  "sorted_wrt (\<lambda>a b. snd b \<le> snd a) (topDomains (processData data))
   \<and> sorted_wrt (\<lambda>a b. snd b \<le> snd a) (topIPs (processData data))
   \<and> (\<forall>e \<in> set (ipDomainCounts (processData data)).
        sorted_wrt (\<lambda>a b. snd b \<le> snd a) (ic_domains e))
   \<and> (\<forall>e \<in> set (domainIPCounts (processData data)).
        sorted_wrt (\<lambda>a b. snd b \<le> snd a) (dc_ips e))
   \<and> sorted_wrt (\<lambda>a b. ic_totalQueries b \<le> ic_totalQueries a) (ipDomainCounts (processData data))
   \<and> sorted_wrt (\<lambda>a b. dc_totalQueries b \<le> dc_totalQueries a) (domainIPCounts (processData data))
   \<and> filter (\<lambda>e. snd e = c) (topDomains (processData data))
       = filter (\<lambda>e. snd e = c)
           (objectEntries (countBy (map enrich (filter validRow data)) domainKey))
   \<and> filter (\<lambda>e. snd e = c) (topIPs (processData data))
       = filter (\<lambda>e. snd e = c)
           (objectEntries (countBy (map enrich (filter validRow data)) ipKey))"
proof -
  have a: "sorted_wrt (\<lambda>a b. snd b \<le> snd a) (ic_domains (ipDomainCountOf e))" for e
    by (simp add: ipDomainCountOf_def Let_def sorted_sortByDesc)
  have b: "sorted_wrt (\<lambda>a b. snd b \<le> snd a) (dc_ips (domainIPCountOf e))" for e
    by (simp add: domainIPCountOf_def Let_def sorted_sortByDesc)
  have 1: "sorted_wrt (\<lambda>a b. snd b \<le> snd a) (topDomains (processData data))"
    by (simp add: topDomains_eq sorted_sortByDesc)
  have 2: "sorted_wrt (\<lambda>a b. snd b \<le> snd a) (topIPs (processData data))"
    by (simp add: topIPs_eq sorted_sortByDesc)
  have 3: "\<forall>e \<in> set (ipDomainCounts (processData data)).
        sorted_wrt (\<lambda>a b. snd b \<le> snd a) (ic_domains e)"
    using a by (auto simp: ipDomainCounts_eq set_sortByDesc)
  have 4: "\<forall>e \<in> set (domainIPCounts (processData data)).
        sorted_wrt (\<lambda>a b. snd b \<le> snd a) (dc_ips e)"
    using b by (auto simp: domainIPCounts_eq set_sortByDesc)
  have 5: "sorted_wrt (\<lambda>a b. ic_totalQueries b \<le> ic_totalQueries a) (ipDomainCounts (processData data))"
    by (simp add: ipDomainCounts_eq sorted_sortByDesc)
  have 6: "sorted_wrt (\<lambda>a b. dc_totalQueries b \<le> dc_totalQueries a) (domainIPCounts (processData data))"
    by (simp add: domainIPCounts_eq sorted_sortByDesc)
  have 7: "filter (\<lambda>e. snd e = c) (topDomains (processData data))
       = filter (\<lambda>e. snd e = c)
           (objectEntries (countBy (map enrich (filter validRow data)) domainKey))"
    by (simp add: topDomains_eq sortByDesc_stable)
  have 8: "filter (\<lambda>e. snd e = c) (topIPs (processData data))
       = filter (\<lambda>e. snd e = c)
           (objectEntries (countBy (map enrich (filter validRow data)) ipKey))"
    by (simp add: topIPs_eq sortByDesc_stable)
  from 1 2 3 4 5 6 7 8 show ?thesis by blast
qed

text \<open>
  The theorem on three rows: \<open>a.com\<close> with two queries precedes \<open>b.com\<close> with one.
\<close>

theorem rankings_descending_witness:
  "topDomains (processData
     [\<lparr>queryValue = JStr ''b.com'', clientIP = JStr ''10.0.0.2'', queryType = JStr ''A''\<rparr>,
      \<lparr>queryValue = JStr ''a.com'', clientIP = JStr ''10.0.0.1'', queryType = JStr ''A''\<rparr>,
      \<lparr>queryValue = JStr ''x.a.com'', clientIP = JStr ''10.0.0.2'', queryType = JStr ''A''\<rparr>])
   = [(''a.com'', 2), (''b.com'', 1)]
   \<and> sorted_wrt (\<lambda>a b. snd b \<le> snd a) (topDomains (processData
     [\<lparr>queryValue = JStr ''b.com'', clientIP = JStr ''10.0.0.2'', queryType = JStr ''A''\<rparr>,
      \<lparr>queryValue = JStr ''a.com'', clientIP = JStr ''10.0.0.1'', queryType = JStr ''A''\<rparr>,
      \<lparr>queryValue = JStr ''x.a.com'', clientIP = JStr ''10.0.0.2'', queryType = JStr ''A''\<rparr>]))
   \<and> list_all (\<lambda>e. sorted_wrt (\<lambda>a b. snd b \<le> snd a) (ic_domains e))
     (ipDomainCounts (processData
     [\<lparr>queryValue = JStr ''b.com'', clientIP = JStr ''10.0.0.2'', queryType = JStr ''A''\<rparr>,
      \<lparr>queryValue = JStr ''a.com'', clientIP = JStr ''10.0.0.1'', queryType = JStr ''A''\<rparr>,
      \<lparr>queryValue = JStr ''x.a.com'', clientIP = JStr ''10.0.0.2'', queryType = JStr ''A''\<rparr>]))"
proof -
  have e: "topDomains (processData
     [\<lparr>queryValue = JStr ''b.com'', clientIP = JStr ''10.0.0.2'', queryType = JStr ''A''\<rparr>,
      \<lparr>queryValue = JStr ''a.com'', clientIP = JStr ''10.0.0.1'', queryType = JStr ''A''\<rparr>,
      \<lparr>queryValue = JStr ''x.a.com'', clientIP = JStr ''10.0.0.2'', queryType = JStr ''A''\<rparr>])
   = [(''a.com'', 2), (''b.com'', 1)]"
    by code_simp
  show ?thesis
    using rankings_descending [of
     "[\<lparr>queryValue = JStr ''b.com'', clientIP = JStr ''10.0.0.2'', queryType = JStr ''A''\<rparr>,
      \<lparr>queryValue = JStr ''a.com'', clientIP = JStr ''10.0.0.1'', queryType = JStr ''A''\<rparr>,
      \<lparr>queryValue = JStr ''x.a.com'', clientIP = JStr ''10.0.0.2'', queryType = JStr ''A''\<rparr>]"]
    unfolding list_all_iff using e by blast
qed

text \<open>
  Claim C5 as stated orders ties by the key ascending. On two rows with one query each, the
  top lists keep the order of first appearance: \<open>b.com\<close> before \<open>a.com\<close> and
  \<open>10.0.0.2\<close> before \<open>10.0.0.1\<close>.
\<close>

theorem rankings_tie_counterexample:
  "topDomains (processData
     [\<lparr>queryValue = JStr ''b.com'', clientIP = JStr ''10.0.0.2'', queryType = JStr ''A''\<rparr>,
      \<lparr>queryValue = JStr ''a.com'', clientIP = JStr ''10.0.0.1'', queryType = JStr ''A''\<rparr>])
     = [(''b.com'', 1), (''a.com'', 1)]
   \<and> topIPs (processData
     [\<lparr>queryValue = JStr ''b.com'', clientIP = JStr ''10.0.0.2'', queryType = JStr ''A''\<rparr>,
      \<lparr>queryValue = JStr ''a.com'', clientIP = JStr ''10.0.0.1'', queryType = JStr ''A''\<rparr>])
     = [(''10.0.0.2'', 1), (''10.0.0.1'', 1)]
   \<and> \<not> ''b.com'' \<le> ''a.com'' \<and> \<not> ''10.0.0.2'' \<le> ''10.0.0.1''"
  by code_simp

text \<open>
  The sort of a run is determined: the only result the language allows for the comparator
  on a count is the stable descending arrangement, and that arrangement is allowed.
\<close>

lemma sortResult_sortByDesc: "sortResult f xs (sortByDesc f xs)"
  by (simp add: sortResult_def mset_sortByDesc sorted_sortByDesc sortByDesc_stable list_all_iff)

lemma sortResult_unique:
  assumes "sortResult f xs ys"
  shows "ys = sortByDesc f xs"
proof -
  have m: "mset ys = mset xs" using assms by (simp add: sortResult_def)
  then have s: "set ys = set xs" by (rule mset_eq_setD)
  have o: "sorted (map (\<lambda>x. - int (f x)) ys)"
    using assms by (simp add: sortResult_def sorted_map)
  have st: "filter (\<lambda>x. f x = c) ys = filter (\<lambda>x. f x = c) xs" if "c \<in> f ` set xs" for c
    using assms that by (auto simp: sortResult_def list_all_iff)
  have "sort_key (\<lambda>x. - int (f x)) xs = ys"
  proof (rule properties_for_sort_key)
    show "mset ys = mset xs" by (rule m)
    show "sorted (map (\<lambda>x. - int (f x)) ys)" by (rule o)
    fix k assume "k \<in> set ys"
    then have "f k \<in> f ` set xs" using s by simp
    then have "filter (\<lambda>x. f x = f k) ys = filter (\<lambda>x. f x = f k) xs" by (rule st)
    moreover have "(\<lambda>x. - int (f k) = - int (f x)) = (\<lambda>x. f x = f k)" by auto
    ultimately show "filter (\<lambda>x. - int (f k) = - int (f x)) ys
        = filter (\<lambda>x. - int (f k) = - int (f x)) xs"
      by simp
  qed
  then show ?thesis by (simp add: sortByDesc_def)
qed

lemma sortResult_iff: "sortResult f xs ys \<longleftrightarrow> ys = sortByDesc f xs"
  using sortResult_unique sortResult_sortByDesc by blast

text \<open>
  The stability guarantee is needed for this: of two entries with equal counts, both
  orders are sorted permutations, and only one of them is an allowed result.
\<close>

lemma sortResult_needs_stability:
  "mset [(''a'', 1::nat), (''b'', 1)] = mset [(''b'', 1), (''a'', 1)]
   \<and> sorted_wrt (\<lambda>a b. snd b \<le> snd a) [(''a'', 1::nat), (''b'', 1)]
   \<and> \<not> sortResult snd [(''b'', 1::nat), (''a'', 1)] [(''a'', 1), (''b'', 1)]"
  by (simp add: sortResult_def)

lemma ipDomainCountRun_iff: "ipDomainCountRun entry e \<longleftrightarrow> e = ipDomainCountOf entry"
  by (cases e) (auto simp: ipDomainCountRun_def ipDomainCountOf_def Let_def sortResult_iff)

lemma domainIPCountRun_iff: "domainIPCountRun entry e \<longleftrightarrow> e = domainIPCountOf entry"
  by (cases e) (auto simp: domainIPCountRun_def domainIPCountOf_def Let_def sortResult_iff)

lemma list_all2_graph: "list_all2 (\<lambda>x y. y = g x) xs ys \<longleftrightarrow> ys = map g xs"
proof -
  have "list_all2 (\<lambda>x y. y = g x) xs ys \<longleftrightarrow> list_all2 (\<lambda>x y. g x = y) xs ys"
    by (rule arg_cong [where f = "\<lambda>P. list_all2 P xs ys"]) auto
  also have "\<dots> \<longleftrightarrow> list_all2 (=) (map g xs) ys" by (simp add: list_all2_map1)
  also have "\<dots> \<longleftrightarrow> ys = map g xs" by (auto simp: list_all2_eq [symmetric])
  finally show ?thesis .
qed

lemma list_all2_ipDomainCountRun:
  "list_all2 ipDomainCountRun xs ys \<longleftrightarrow> ys = map ipDomainCountOf xs"
proof -
  have e: "ipDomainCountRun = (\<lambda>x y. y = ipDomainCountOf x)"
    by (intro ext) (rule ipDomainCountRun_iff)
  show ?thesis unfolding e by (rule list_all2_graph)
qed

lemma list_all2_domainIPCountRun:
  "list_all2 domainIPCountRun xs ys \<longleftrightarrow> ys = map domainIPCountOf xs"
proof -
  have e: "domainIPCountRun = (\<lambda>x y. y = domainIPCountOf x)"
    by (intro ext) (rule domainIPCountRun_iff)
  show ?thesis unfolding e by (rule list_all2_graph)
qed

lemma processDataRun_iff: "processDataRun data result \<longleftrightarrow> result = processData data"
proof
  assume "processDataRun data result"
  then show "result = processData data"
    by (cases result)
       (auto simp: processDataRun_def processData_def Let_def sortResult_iff
          list_all2_ipDomainCountRun list_all2_domainIPCountRun)
next
  assume "result = processData data"
  then show "processDataRun data result"
    by (simp add: processDataRun_def processData_def Let_def sortResult_iff
          list_all2_ipDomainCountRun list_all2_domainIPCountRun)
qed

text \<open>
  Runs exist: the result computed by \<open>processData\<close> is the result of a run.
\<close>

lemma processData_is_run: "processDataRun data (processData data)"
  by (simp add: processDataRun_iff)

text \<open>
  Claim C7. The aggregation is deterministic: the results of any two runs on the same rows
  are equal. A run (\<open>processDataRun\<close>) follows \<open>processData\<close> step by step and leaves each
  call of \<open>sort\<close> to the implementation, within what the language guarantees; nothing else
  in \<open>processData\<close> can vary between runs, since it reads only its argument. The equality
  rests on the stability of the sort and on the fixed enumeration order of object keys.
\<close>

theorem aggregation_deterministic:
  assumes "processDataRun data r1" and "processDataRun data r2"
  shows "r1 = r2"
  using assms by (simp add: processDataRun_iff)

text \<open>
  The theorem on two rows with equal counts: the written-out result is the result of a run,
  so is the computed one, and the two are equal.
\<close>

theorem aggregation_deterministic_witness:
  "processDataRun
     [\<lparr>queryValue = JStr ''b.com'', clientIP = JStr ''10.0.0.2'', queryType = JStr ''A''\<rparr>,
      \<lparr>queryValue = JStr ''a.com'', clientIP = JStr ''10.0.0.1'', queryType = JStr ''A''\<rparr>]
     \<lparr>summary = \<lparr>totalRecords = 2, uniqueDomains = 2, uniqueIPs = 2, queryTypes = [(''A'', 2)]\<rparr>,
      topDomains = [(''b.com'', 1), (''a.com'', 1)],
      topIPs = [(''10.0.0.2'', 1), (''10.0.0.1'', 1)],
      ipDomainCounts =
        [\<lparr>ic_ip = ''10.0.0.2'', ic_uniqueDomains = 1, ic_totalQueries = 1,
           ic_domains = [(''b.com'', 1)]\<rparr>,
         \<lparr>ic_ip = ''10.0.0.1'', ic_uniqueDomains = 1, ic_totalQueries = 1,
           ic_domains = [(''a.com'', 1)]\<rparr>],
      domainIPCounts =
        [\<lparr>dc_domain = ''b.com'', dc_uniqueIPs = 1, dc_totalQueries = 1,
           dc_ips = [(''10.0.0.2'', 1)]\<rparr>,
         \<lparr>dc_domain = ''a.com'', dc_uniqueIPs = 1, dc_totalQueries = 1,
           dc_ips = [(''10.0.0.1'', 1)]\<rparr>]\<rparr>
   \<and> processData
     [\<lparr>queryValue = JStr ''b.com'', clientIP = JStr ''10.0.0.2'', queryType = JStr ''A''\<rparr>,
      \<lparr>queryValue = JStr ''a.com'', clientIP = JStr ''10.0.0.1'', queryType = JStr ''A''\<rparr>]
   = \<lparr>summary = \<lparr>totalRecords = 2, uniqueDomains = 2, uniqueIPs = 2, queryTypes = [(''A'', 2)]\<rparr>,
      topDomains = [(''b.com'', 1), (''a.com'', 1)],
      topIPs = [(''10.0.0.2'', 1), (''10.0.0.1'', 1)],
      ipDomainCounts =
        [\<lparr>ic_ip = ''10.0.0.2'', ic_uniqueDomains = 1, ic_totalQueries = 1,
           ic_domains = [(''b.com'', 1)]\<rparr>,
         \<lparr>ic_ip = ''10.0.0.1'', ic_uniqueDomains = 1, ic_totalQueries = 1,
           ic_domains = [(''a.com'', 1)]\<rparr>],
      domainIPCounts =
        [\<lparr>dc_domain = ''b.com'', dc_uniqueIPs = 1, dc_totalQueries = 1,
           dc_ips = [(''10.0.0.2'', 1)]\<rparr>,
         \<lparr>dc_domain = ''a.com'', dc_uniqueIPs = 1, dc_totalQueries = 1,
           dc_ips = [(''10.0.0.1'', 1)]\<rparr>]\<rparr>"
proof -
  let ?data = "[\<lparr>queryValue = JStr ''b.com'', clientIP = JStr ''10.0.0.2'', queryType = JStr ''A''\<rparr>,
      \<lparr>queryValue = JStr ''a.com'', clientIP = JStr ''10.0.0.1'', queryType = JStr ''A''\<rparr>]"
  let ?r = "\<lparr>summary = \<lparr>totalRecords = 2, uniqueDomains = 2, uniqueIPs = 2, queryTypes = [(''A'', 2)]\<rparr>,
      topDomains = [(''b.com'', 1), (''a.com'', 1)],
      topIPs = [(''10.0.0.2'', 1), (''10.0.0.1'', 1)],
      ipDomainCounts =
        [\<lparr>ic_ip = ''10.0.0.2'', ic_uniqueDomains = 1, ic_totalQueries = 1,
           ic_domains = [(''b.com'', 1)]\<rparr>,
         \<lparr>ic_ip = ''10.0.0.1'', ic_uniqueDomains = 1, ic_totalQueries = 1,
           ic_domains = [(''a.com'', 1)]\<rparr>],
      domainIPCounts =
        [\<lparr>dc_domain = ''b.com'', dc_uniqueIPs = 1, dc_totalQueries = 1,
           dc_ips = [(''10.0.0.2'', 1)]\<rparr>,
         \<lparr>dc_domain = ''a.com'', dc_uniqueIPs = 1, dc_totalQueries = 1,
           dc_ips = [(''10.0.0.1'', 1)]\<rparr>]\<rparr>"
  have e: "processData ?data = ?r" by code_simp
  have run1: "processDataRun ?data (processData ?data)" by (rule processData_is_run)
  have run2: "processDataRun ?data ?r" using run1 unfolding e .
  have "processData ?data = ?r" using run1 run2 by (rule aggregation_deterministic)
  with run2 show ?thesis by blast
qed

section \<open>Properties of the device table\<close>

lemma blockedPercentage_bounds:
  assumes "b \<le> q"
  shows "0 \<le> blockedPercentage b q \<and> blockedPercentage b q \<le> 100"
proof (cases "q = 0")
  case True
  then show ?thesis by (simp add: blockedPercentage_def)
next
  case False
  then have pos: "0 < (of_nat q :: rat)" by simp
  have le: "(of_nat b :: rat) \<le> of_nat q" using assms by simp
  have "(of_nat b :: rat) / of_nat q * 100 \<le> 100"
    using pos le by (simp add: pos_divide_le_eq)
  moreover have "0 \<le> (of_nat b :: rat) / of_nat q * 100" by simp
  ultimately show ?thesis using False by (simp add: blockedPercentage_def)
qed

lemma deviceOf_fields:
  "ip (deviceOf records a) = a"
  "query_count (deviceOf records a) = length (filter (\<lambda>r. client_ip r = a) records)"
  "blocked_count (deviceOf records a)
     = length (filter (\<lambda>r. status r = Blocked) (filter (\<lambda>r. client_ip r = a) records))"
  "blocked_percentage (deviceOf records a)
     = blockedPercentage (blocked_count (deviceOf records a)) (query_count (deviceOf records a))"
  by (simp_all add: deviceOf_def Let_def)

lemma deviceOf_blocked_le: "blocked_count (deviceOf records a) \<le> query_count (deviceOf records a)"
  unfolding deviceOf_fields(2,3) by (rule length_filter_le)

text \<open>
  Claim C8. For every device of the table, \<open>blocked_percentage\<close> is
  \<open>blocked_count / query_count * 100\<close>, or 0 when \<open>query_count\<close> is 0, and lies between 0
  and 100; the percentage of a zero query count is 0 for any blocked count, so no division
  by zero occurs.
\<close>

theorem device_percentage_bounds:
  "(\<forall>d \<in> set (aggregateDevices records).
      blocked_percentage d
        = (if query_count d = 0 then 0
           else of_nat (blocked_count d) / of_nat (query_count d) * 100)
      \<and> 0 \<le> blocked_percentage d \<and> blocked_percentage d \<le> 100)
   \<and> blockedPercentage blocked 0 = 0"
proof
  show "\<forall>d \<in> set (aggregateDevices records).
      blocked_percentage d
        = (if query_count d = 0 then 0
           else of_nat (blocked_count d) / of_nat (query_count d) * 100)
      \<and> 0 \<le> blocked_percentage d \<and> blocked_percentage d \<le> 100"
  proof
    fix d assume "d \<in> set (aggregateDevices records)"
    then obtain a where d: "d = deviceOf records a" by (auto simp: aggregateDevices_def)
    have p: "blocked_percentage d = blockedPercentage (blocked_count d) (query_count d)"
      unfolding d by (rule deviceOf_fields(4))
    have "blocked_count d \<le> query_count d" unfolding d by (rule deviceOf_blocked_le)
    then have "0 \<le> blockedPercentage (blocked_count d) (query_count d)
        \<and> blockedPercentage (blocked_count d) (query_count d) \<le> 100"
      by (rule blockedPercentage_bounds)
    with p show "blocked_percentage d
        = (if query_count d = 0 then 0
           else of_nat (blocked_count d) / of_nat (query_count d) * 100)
      \<and> 0 \<le> blocked_percentage d \<and> blocked_percentage d \<le> 100"
      by (simp add: blockedPercentage_def)
  qed
  show "blockedPercentage blocked 0 = 0" by (simp add: blockedPercentage_def)
qed

text \<open>
  The theorem on three records: one of the two records of \<open>10.0.0.1\<close> is blocked (50), none
  of \<open>10.0.0.2\<close> (0).
\<close>

theorem device_percentage_bounds_witness:
  "map blocked_percentage (aggregateDevices
     [\<lparr>timestamp = 0, query_domain = ''ads.example.com'', base_domain = ''example.com'',
       client_ip = ''10.0.0.1'', query_type = ''A'', status = Blocked, source = NextDNS\<rparr>,
      \<lparr>timestamp = 1, query_domain = ''www.example.com'', base_domain = ''example.com'',
       client_ip = ''10.0.0.1'', query_type = ''A'', status = Allowed, source = NextDNS\<rparr>,
      \<lparr>timestamp = 2, query_domain = ''example.org'', base_domain = ''example.org'',
       client_ip = ''10.0.0.2'', query_type = ''A'', status = Unknown, source = RouterOS\<rparr>])
     = [50, 0]
   \<and> list_all (\<lambda>d. 0 \<le> blocked_percentage d \<and> blocked_percentage d \<le> 100) (aggregateDevices
     [\<lparr>timestamp = 0, query_domain = ''ads.example.com'', base_domain = ''example.com'',
       client_ip = ''10.0.0.1'', query_type = ''A'', status = Blocked, source = NextDNS\<rparr>,
      \<lparr>timestamp = 1, query_domain = ''www.example.com'', base_domain = ''example.com'',
       client_ip = ''10.0.0.1'', query_type = ''A'', status = Allowed, source = NextDNS\<rparr>,
      \<lparr>timestamp = 2, query_domain = ''example.org'', base_domain = ''example.org'',
       client_ip = ''10.0.0.2'', query_type = ''A'', status = Unknown, source = RouterOS\<rparr>])"
proof -
  have e: "map blocked_percentage (aggregateDevices
     [\<lparr>timestamp = 0, query_domain = ''ads.example.com'', base_domain = ''example.com'',
       client_ip = ''10.0.0.1'', query_type = ''A'', status = Blocked, source = NextDNS\<rparr>,
      \<lparr>timestamp = 1, query_domain = ''www.example.com'', base_domain = ''example.com'',
       client_ip = ''10.0.0.1'', query_type = ''A'', status = Allowed, source = NextDNS\<rparr>,
      \<lparr>timestamp = 2, query_domain = ''example.org'', base_domain = ''example.org'',
       client_ip = ''10.0.0.2'', query_type = ''A'', status = Unknown, source = RouterOS\<rparr>])
     = [50, 0]"
    by (simp add: aggregateDevices_def deviceOf_def blockedPercentage_def)
  show ?thesis
    using device_percentage_bounds [of
     "[\<lparr>timestamp = 0, query_domain = ''ads.example.com'', base_domain = ''example.com'',
       client_ip = ''10.0.0.1'', query_type = ''A'', status = Blocked, source = NextDNS\<rparr>,
      \<lparr>timestamp = 1, query_domain = ''www.example.com'', base_domain = ''example.com'',
       client_ip = ''10.0.0.1'', query_type = ''A'', status = Allowed, source = NextDNS\<rparr>,
      \<lparr>timestamp = 2, query_domain = ''example.org'', base_domain = ''example.org'',
       client_ip = ''10.0.0.2'', query_type = ''A'', status = Unknown, source = RouterOS\<rparr>]"]
    unfolding list_all_iff using e by blast
qed

lemma normalizeStatus_fold:
  "lowercase s = lowercase t \<Longrightarrow> normalizeStatus vocabulary s = normalizeStatus vocabulary t"
  by (simp add: normalizeStatus_def)

lemma nextdnsRecord_fold:
  assumes "b = a\<lparr>nd_status := nd_status b\<rparr>" and "lowercase (nd_status a) = lowercase (nd_status b)"
  shows "nextdnsRecord vocabulary a = nextdnsRecord vocabulary b"
proof -
  have f: "nd_timestamp b = nd_timestamp a" "nd_domain b = nd_domain a"
    "nd_client_ip b = nd_client_ip a" "nd_query_type b = nd_query_type a"
    by (subst assms(1), simp)+
  show ?thesis
    using normalizeStatus_fold [OF assms(2), of vocabulary]
    by (simp add: nextdnsRecord_def f)
qed

lemma map_filter_fold:
  assumes "list_all2 (\<lambda>a b. b = a\<lparr>nd_status := nd_status b\<rparr>
             \<and> lowercase (nd_status a) = lowercase (nd_status b)) rows rows'"
  shows "List.map_filter (nextdnsRecord vocabulary) rows
           = List.map_filter (nextdnsRecord vocabulary) rows'"
  using assms
proof (induction rule: list_all2_induct)
  case Nil
  show ?case by simp
next
  case (Cons a rows b rows')
  then have "nextdnsRecord vocabulary a = nextdnsRecord vocabulary b"
    using nextdnsRecord_fold by blast
  with Cons show ?case by (simp split: option.splits)
qed

lemma length_filter_map_filter:
  "length (filter P (List.map_filter f xs))
     = length (filter (\<lambda>x. case f x of None \<Rightarrow> False | Some y \<Rightarrow> P y) xs)"
  by (induction xs) (auto split: option.splits)

lemma nextdns_blocked_count:
  "blocked_count (deviceOf (List.map_filter (nextdnsRecord vocabulary) rows) a)
     = length (filter (\<lambda>r. nd_domain r \<noteq> [] \<and> nd_client_ip r \<noteq> [] \<and> nd_client_ip r = a
                 \<and> normalizeStatus vocabulary (nd_status r) = Blocked) rows)"
proof -
  have "blocked_count (deviceOf (List.map_filter (nextdnsRecord vocabulary) rows) a)
      = length (filter (\<lambda>r. client_ip r = a \<and> status r = Blocked)
          (List.map_filter (nextdnsRecord vocabulary) rows))"
    by (simp add: deviceOf_fields conj_commute)
  also have "\<dots> = length (filter (\<lambda>r. nd_domain r \<noteq> [] \<and> nd_client_ip r \<noteq> [] \<and> nd_client_ip r = a
                 \<and> normalizeStatus vocabulary (nd_status r) = Blocked) rows)"
    unfolding length_filter_map_filter
    by (rule arg_cong [where f = length], rule filter_cong)
       (auto simp: nextdnsRecord_def)
  finally show ?thesis .
qed

lemma normalizeStatus_blocked:
  "lowercase s = ''blocked'' \<Longrightarrow> normalizeStatus vocabulary s = Blocked"
  by (simp add: normalizeStatus_def)

text \<open>
  Claim C1. The status of a NextDNS row is folded case-insensitively before anything is
  counted: two exports whose rows differ only in the letter case of the status give the same
  device table; \<open>"Blocked"\<close>, \<open>"blocked"\<close> and \<open>"BLOCKED"\<close> all normalise to \<open>blocked\<close>;
  and \<open>blocked_count\<close> of a device is the number of its rows whose normalised status is
  \<open>blocked\<close>, never a count over the raw string.
\<close>

theorem status_folded_before_counting:
  assumes "list_all2 (\<lambda>a b. b = a\<lparr>nd_status := nd_status b\<rparr>
             \<and> lowercase (nd_status a) = lowercase (nd_status b)) rows rows'"
  shows "nextdnsDevices vocabulary rows = nextdnsDevices vocabulary rows'
    \<and> normalizeStatus vocabulary ''Blocked'' = Blocked
    \<and> normalizeStatus vocabulary ''blocked'' = Blocked
    \<and> normalizeStatus vocabulary ''BLOCKED'' = Blocked
    \<and> (\<forall>d \<in> set (nextdnsDevices vocabulary rows).
          blocked_count d
            = length (filter (\<lambda>r. nd_domain r \<noteq> [] \<and> nd_client_ip r \<noteq> []
                        \<and> nd_client_ip r = ip d
                        \<and> normalizeStatus vocabulary (nd_status r) = Blocked) rows))"
proof (intro conjI)
  show "nextdnsDevices vocabulary rows = nextdnsDevices vocabulary rows'"
    using map_filter_fold [OF assms] by (simp add: nextdnsDevices_def)
  show "normalizeStatus vocabulary ''Blocked'' = Blocked"
    by (rule normalizeStatus_blocked) (simp add: lowercase_def lowerChar_def)
  show "normalizeStatus vocabulary ''blocked'' = Blocked"
    by (rule normalizeStatus_blocked) (simp add: lowercase_def lowerChar_def)
  show "normalizeStatus vocabulary ''BLOCKED'' = Blocked"
    by (rule normalizeStatus_blocked) (simp add: lowercase_def lowerChar_def)
  show "\<forall>d \<in> set (nextdnsDevices vocabulary rows).
          blocked_count d
            = length (filter (\<lambda>r. nd_domain r \<noteq> [] \<and> nd_client_ip r \<noteq> []
                        \<and> nd_client_ip r = ip d
                        \<and> normalizeStatus vocabulary (nd_status r) = Blocked) rows)"
  proof
    fix d assume "d \<in> set (nextdnsDevices vocabulary rows)"
    then obtain a where d: "d = deviceOf (List.map_filter (nextdnsRecord vocabulary) rows) a"
      by (auto simp: nextdnsDevices_def aggregateDevices_def)
    have "ip d = a" unfolding d by (rule deviceOf_fields(1))
    then show "blocked_count d
            = length (filter (\<lambda>r. nd_domain r \<noteq> [] \<and> nd_client_ip r \<noteq> []
                        \<and> nd_client_ip r = ip d
                        \<and> normalizeStatus vocabulary (nd_status r) = Blocked) rows)"
      using nextdns_blocked_count [of vocabulary rows a] d by simp
  qed
qed

text \<open>
  The theorem on an export with the three spellings and on the same export in lower case:
  the tables agree and the device has three blocked queries.
\<close>

theorem status_folded_before_counting_witness:
  "nextdnsDevices []
     [\<lparr>nd_timestamp = 0, nd_domain = ''ads.example.com'', nd_client_ip = ''10.0.0.1'',
        nd_query_type = ''A'', nd_status = ''Blocked''\<rparr>,
      \<lparr>nd_timestamp = 1, nd_domain = ''ads.example.com'', nd_client_ip = ''10.0.0.1'',
        nd_query_type = ''A'', nd_status = ''blocked''\<rparr>,
      \<lparr>nd_timestamp = 2, nd_domain = ''ads.example.com'', nd_client_ip = ''10.0.0.1'',
        nd_query_type = ''A'', nd_status = ''BLOCKED''\<rparr>,
      \<lparr>nd_timestamp = 3, nd_domain = ''www.example.com'', nd_client_ip = ''10.0.0.1'',
        nd_query_type = ''A'', nd_status = ''Allowed''\<rparr>]
   = nextdnsDevices []
     [\<lparr>nd_timestamp = 0, nd_domain = ''ads.example.com'', nd_client_ip = ''10.0.0.1'',
        nd_query_type = ''A'', nd_status = ''blocked''\<rparr>,
      \<lparr>nd_timestamp = 1, nd_domain = ''ads.example.com'', nd_client_ip = ''10.0.0.1'',
        nd_query_type = ''A'', nd_status = ''blocked''\<rparr>,
      \<lparr>nd_timestamp = 2, nd_domain = ''ads.example.com'', nd_client_ip = ''10.0.0.1'',
        nd_query_type = ''A'', nd_status = ''blocked''\<rparr>,
      \<lparr>nd_timestamp = 3, nd_domain = ''www.example.com'', nd_client_ip = ''10.0.0.1'',
        nd_query_type = ''A'', nd_status = ''allowed''\<rparr>]
   \<and> map blocked_count (nextdnsDevices []
     [\<lparr>nd_timestamp = 0, nd_domain = ''ads.example.com'', nd_client_ip = ''10.0.0.1'',
        nd_query_type = ''A'', nd_status = ''Blocked''\<rparr>,
      \<lparr>nd_timestamp = 1, nd_domain = ''ads.example.com'', nd_client_ip = ''10.0.0.1'',
        nd_query_type = ''A'', nd_status = ''blocked''\<rparr>,
      \<lparr>nd_timestamp = 2, nd_domain = ''ads.example.com'', nd_client_ip = ''10.0.0.1'',
        nd_query_type = ''A'', nd_status = ''BLOCKED''\<rparr>,
      \<lparr>nd_timestamp = 3, nd_domain = ''www.example.com'', nd_client_ip = ''10.0.0.1'',
        nd_query_type = ''A'', nd_status = ''Allowed''\<rparr>]) = [3]"
proof -
  have h: "list_all2 (\<lambda>a b. b = a\<lparr>nd_status := nd_status b\<rparr>
             \<and> lowercase (nd_status a) = lowercase (nd_status b))
     [\<lparr>nd_timestamp = 0, nd_domain = ''ads.example.com'', nd_client_ip = ''10.0.0.1'',
        nd_query_type = ''A'', nd_status = ''Blocked''\<rparr>,
      \<lparr>nd_timestamp = 1, nd_domain = ''ads.example.com'', nd_client_ip = ''10.0.0.1'',
        nd_query_type = ''A'', nd_status = ''blocked''\<rparr>,
      \<lparr>nd_timestamp = 2, nd_domain = ''ads.example.com'', nd_client_ip = ''10.0.0.1'',
        nd_query_type = ''A'', nd_status = ''BLOCKED''\<rparr>,
      \<lparr>nd_timestamp = 3, nd_domain = ''www.example.com'', nd_client_ip = ''10.0.0.1'',
        nd_query_type = ''A'', nd_status = ''Allowed''\<rparr>]
     [\<lparr>nd_timestamp = 0, nd_domain = ''ads.example.com'', nd_client_ip = ''10.0.0.1'',
        nd_query_type = ''A'', nd_status = ''blocked''\<rparr>,
      \<lparr>nd_timestamp = 1, nd_domain = ''ads.example.com'', nd_client_ip = ''10.0.0.1'',
        nd_query_type = ''A'', nd_status = ''blocked''\<rparr>,
      \<lparr>nd_timestamp = 2, nd_domain = ''ads.example.com'', nd_client_ip = ''10.0.0.1'',
        nd_query_type = ''A'', nd_status = ''blocked''\<rparr>,
      \<lparr>nd_timestamp = 3, nd_domain = ''www.example.com'', nd_client_ip = ''10.0.0.1'',
        nd_query_type = ''A'', nd_status = ''allowed''\<rparr>]"
    by (simp add: lowercase_def lowerChar_def)
  have e: "map blocked_count (nextdnsDevices []
     [\<lparr>nd_timestamp = 0, nd_domain = ''ads.example.com'', nd_client_ip = ''10.0.0.1'',
        nd_query_type = ''A'', nd_status = ''Blocked''\<rparr>,
      \<lparr>nd_timestamp = 1, nd_domain = ''ads.example.com'', nd_client_ip = ''10.0.0.1'',
        nd_query_type = ''A'', nd_status = ''blocked''\<rparr>,
      \<lparr>nd_timestamp = 2, nd_domain = ''ads.example.com'', nd_client_ip = ''10.0.0.1'',
        nd_query_type = ''A'', nd_status = ''BLOCKED''\<rparr>,
      \<lparr>nd_timestamp = 3, nd_domain = ''www.example.com'', nd_client_ip = ''10.0.0.1'',
        nd_query_type = ''A'', nd_status = ''Allowed''\<rparr>]) = [3]"
    by code_simp
  show ?thesis
    using status_folded_before_counting [OF h, of "[]"] e by blast
qed

end
